theory Spec2Isabelle
  imports Main "HOL-Library.Word"
begin

section \<open>Data model of the fiber library (fiber.h)\<close>

text \<open>
  Objects live in an explicit store: a fiber is addressed by a natural number, a null
  pointer is \<open>None\<close>. A pointer to a fiber's \<open>m_ctx\<close> member is identified with the
  address of the fiber that holds it.
\<close>

type_synonym addr = nat

text \<open>A \<open>std::function<void()>\<close> is the name of a callable; the empty function is \<open>None\<close>.\<close>

type_synonym cb = nat

text \<open>The enum \<open>Fiber::State\<close>; its third value \<open>TERM\<close> is written \<open>TERM'\<close> here.\<close>

datatype State = READY | RUNNING | TERM'

text \<open>
  What a saved machine context continues with when it is activated: nothing yet, the
  place where \<open>getcontext\<close> or \<open>swapcontext\<close> captured it, or the entry function bound
  by \<open>makecontext\<close> (always \<open>Fiber::MainFunc\<close> in this program).
\<close>

datatype resume_point = Nowhere | Call_site | MainFunc_entry

record ucontext_t =
  uc_link :: "addr option"
  ss_sp :: "addr option"
  ss_size :: "64 word"
  uc_resume :: resume_point

record Fiber =
  m_id :: "64 word"
  m_stack_size :: "32 word"
  m_state :: State
  m_ctx :: ucontext_t
  m_stack :: "addr option"
  m_cb :: "cb option"
  m_runInScheduler :: bool

text \<open>Calls that leave the program and are observable from outside.\<close>

datatype event =
    Malloc "64 word" "addr option"
  | Free addr
  | Swapcontext addr addr
  | Call addr cb

text \<open>
  The process as one thread sees it: the two process-wide counters, the two thread-local
  pointers, the configured stack size, the store of fibers with the use counts of their
  \<open>shared_ptr\<close> control blocks, and the calls made so far.
\<close>

record sys =
  s_fiber_count :: "64 word"
  s_fiber_id :: "64 word"
  t_fiber :: "addr option"
  t_thread_fiber :: "addr option"
  g_fiber_stack_size :: "32 word"
  t_scheduler_fiber :: "addr option"
  heap :: "addr \<Rightarrow> Fiber option"
  use_count :: "addr \<Rightarrow> nat"
  trace :: "event list"

text \<open>
  What the platform decides in one call: the address \<open>new Fiber\<close> returns, the result
  of \<open>malloc\<close>, the return codes of \<open>getcontext\<close> and \<open>swapcontext\<close>, and the bit found
  in the member \<open>m_runInScheduler\<close>, which the constructor of a root fiber never sets.
\<close>

record platform =
  new_ret :: addr
  malloc_ret :: "addr option"
  getcontext_ret :: int
  swapcontext_ret :: int
  indeterminate :: bool

datatype error =
    Assertion_failed
  | Null_dereference
  | Dangling_pointer
  | Bad_weak_ptr
  | Bad_function_call

definition and_then :: "error + 'a \<Rightarrow> ('a \<Rightarrow> error + 'b) \<Rightarrow> error + 'b" where
  "and_then r k = (case r of Inl e \<Rightarrow> Inl e | Inr x \<Rightarrow> k x)"

text \<open>
  Modelled from the spec: the macros \<open>SYLAR_ASSERT\<close> and \<open>SYLAR_ASSERT2\<close> of macro.h
  are not among the sources. The fatal-assertion collaborator "aborts the process with
  a diagnostic message whenever any precondition is violated; not recoverable".
\<close>

definition SYLAR_ASSERT :: "bool \<Rightarrow> error + unit" where
  "SYLAR_ASSERT x = (if x then Inr () else Inl Assertion_failed)"

definition SYLAR_ASSERT2 :: "bool \<Rightarrow> string \<Rightarrow> error + unit" where
  "SYLAR_ASSERT2 x w = (if x then Inr () else Inl Assertion_failed)"

definition deref :: "addr \<Rightarrow> sys \<Rightarrow> error + Fiber" where
  "deref p s = (case heap s p of None \<Rightarrow> Inl Dangling_pointer | Some f \<Rightarrow> Inr f)"

definition nonnull :: "addr option \<Rightarrow> error + addr" where
  "nonnull p = (case p of None \<Rightarrow> Inl Null_dereference | Some a \<Rightarrow> Inr a)"

definition modify :: "addr \<Rightarrow> (Fiber \<Rightarrow> Fiber) \<Rightarrow> sys \<Rightarrow> sys" where
  "modify p g s = s\<lparr>heap := (heap s)(p := map_option g (heap s p))\<rparr>"

definition emit :: "event \<Rightarrow> sys \<Rightarrow> sys" where
  "emit e s = s\<lparr>trace := trace s @ [e]\<rparr>"

section \<open>The platform's context and allocation calls\<close>

definition blank_ctx :: ucontext_t where
  "blank_ctx = \<lparr>uc_link = None, ss_sp = None, ss_size = 0, uc_resume = Nowhere\<rparr>"

text \<open>\<open>getcontext(&m_ctx)\<close> of the fiber at \<open>p\<close>; the return code is the platform's.\<close>

definition getcontext :: "platform \<Rightarrow> addr \<Rightarrow> sys \<Rightarrow> int \<times> sys" where
  "getcontext env p s =
     (if getcontext_ret env \<noteq> 0 then (getcontext_ret env, s)
      else (0, modify p (\<lambda>f. f\<lparr>m_ctx := (m_ctx f)\<lparr>uc_resume := Call_site\<rparr>\<rparr>) s))"

text \<open>\<open>makecontext(&m_ctx, &Fiber::MainFunc, 0)\<close> of the fiber at \<open>p\<close>.\<close>

definition makecontext :: "addr \<Rightarrow> sys \<Rightarrow> sys" where
  "makecontext p s = modify p (\<lambda>f. f\<lparr>m_ctx := (m_ctx f)\<lparr>uc_resume := MainFunc_entry\<rparr>\<rparr>) s"

text \<open>
  \<open>swapcontext(&oucp->m_ctx, &ucp->m_ctx)\<close>: the running context is saved in the fiber at
  \<open>oucp\<close> and the context of the fiber at \<open>ucp\<close> is activated. The model ends the calling
  function at the switch: what follows the call in the source runs when the saved
  context is activated again.
\<close>

definition swapcontext :: "platform \<Rightarrow> addr \<Rightarrow> addr \<Rightarrow> sys \<Rightarrow> error + int \<times> sys" where
  "swapcontext env oucp ucp s =
     (if swapcontext_ret env \<noteq> 0 then Inr (swapcontext_ret env, s)
      else and_then (deref oucp s) (\<lambda>_.
           and_then (deref ucp s) (\<lambda>_.
           Inr (0, emit (Swapcontext oucp ucp)
                     (modify oucp (\<lambda>f. f\<lparr>m_ctx := (m_ctx f)\<lparr>uc_resume := Call_site\<rparr>\<rparr>) s)))))"

text \<open>\<open>MallocStackAllocator::Alloc\<close> and \<open>Dealloc\<close>.\<close>

definition Alloc :: "platform \<Rightarrow> 64 word \<Rightarrow> sys \<Rightarrow> addr option \<times> sys" where
  "Alloc env n s = (malloc_ret env, emit (Malloc n (malloc_ret env)) s)"

definition Dealloc :: "addr \<Rightarrow> 64 word \<Rightarrow> sys \<Rightarrow> sys" where
  "Dealloc vp n s = emit (Free vp) s"

section \<open>The fiber operations (fiber.cpp)\<close>

definition SetThis :: "addr option \<Rightarrow> sys \<Rightarrow> sys" where
  "SetThis f s = s\<lparr>t_fiber := f\<rparr>"

text \<open>
  Modelled from the spec: \<open>Scheduler::GetMainFiber\<close> of scheduler.h is not among the
  sources. The scheduler collaborator "must expose, per thread, a hub fiber accessor
  returning the fiber whose context resume() swaps against".
\<close>

definition Scheduler_GetMainFiber :: "sys \<Rightarrow> addr option" where
  "Scheduler_GetMainFiber s = t_scheduler_fiber s"

text \<open>\<open>Fiber::Fiber()\<close>, the constructor of a thread's root fiber, on the storage at \<open>this\<close>.\<close>

definition Fiber_ctor :: "platform \<Rightarrow> addr \<Rightarrow> sys \<Rightarrow> error + sys" where
  "Fiber_ctor env this s =
     (let s0 = s\<lparr>heap := (heap s)(this \<mapsto>
                 \<lparr>m_id = 0, m_stack_size = 0, m_state = READY, m_ctx = blank_ctx,
                  m_stack = None, m_cb = None, m_runInScheduler = indeterminate env\<rparr>)\<rparr>;
          s1 = SetThis (Some this) s0;
          s2 = modify this (\<lambda>f. f\<lparr>m_state := RUNNING\<rparr>) s1;
          (rc, s3) = getcontext env this s2
      in and_then (if rc \<noteq> 0 then SYLAR_ASSERT2 False ''getcontext'' else Inr ()) (\<lambda>_.
         let s4 = s3\<lparr>s_fiber_count := s_fiber_count s3 + 1\<rparr>;
             s5 = (modify this (\<lambda>f. f\<lparr>m_id := s_fiber_id s4\<rparr>) s4)
                    \<lparr>s_fiber_id := s_fiber_id s4 + 1\<rparr>
         in Inr s5))"

text \<open>
  Modelled from the spec: \<open>ConfigVar\<close> and \<open>Config::Lookup\<close> of config.h are not among
  the sources. The configuration collaborator holds "one named tunable, default stack
  size in bytes, consulted whenever a fiber is created with an unspecified (zero) size":
  \<open>g_fiber_stack_size\<close> is the configured value and \<open>getValue()\<close> reads it.
\<close>

definition getValue :: "32 word \<Rightarrow> 32 word" where
  "getValue v = v"

text \<open>\<open>Fiber::Fiber(cb, stack_size, run_in_scheduler)\<close>, the constructor of a task fiber.\<close>

definition Fiber_ctor_cb ::
  "platform \<Rightarrow> addr \<Rightarrow> cb option \<Rightarrow> 64 word \<Rightarrow> bool \<Rightarrow> sys \<Rightarrow> error + sys" where
  "Fiber_ctor_cb env this cb stack_size run_in_scheduler s =
     (let s0 = (s\<lparr>heap := (heap s)(this \<mapsto>
                  \<lparr>m_id = s_fiber_id s, m_stack_size = 0, m_state = READY, m_ctx = blank_ctx,
                   m_stack = None, m_cb = cb, m_runInScheduler = run_in_scheduler\<rparr>)\<rparr>)
                 \<lparr>s_fiber_id := s_fiber_id s + 1\<rparr>;
          s1 = s0\<lparr>s_fiber_count := s_fiber_count s0 + 1\<rparr>;
          n = (ucast (if stack_size \<noteq> 0 then stack_size
                         else (ucast (getValue (g_fiber_stack_size s1)) :: 64 word)) :: 32 word);
          s2 = modify this (\<lambda>f. f\<lparr>m_stack_size := n\<rparr>) s1;
          (stk, s3) = Alloc env (ucast n) s2;
          s4 = modify this (\<lambda>f. f\<lparr>m_stack := stk\<rparr>) s3;
          (rc, s5) = getcontext env this s4
      in and_then (if rc \<noteq> 0 then SYLAR_ASSERT2 False ''getcontext'' else Inr ()) (\<lambda>_.
         let s6 = modify this (\<lambda>f. f\<lparr>m_ctx := (m_ctx f)\<lparr>uc_link := None\<rparr>\<rparr>) s5;
             s7 = modify this (\<lambda>f. f\<lparr>m_ctx := (m_ctx f)\<lparr>ss_sp := m_stack f\<rparr>\<rparr>) s6;
             s8 = modify this (\<lambda>f. f\<lparr>m_ctx := (m_ctx f)\<lparr>ss_size := ucast (m_stack_size f)\<rparr>\<rparr>) s7
         in Inr (makecontext this s8)))"

text \<open>\<open>Fiber::~Fiber()\<close>.\<close>

definition Fiber_dtor :: "addr \<Rightarrow> sys \<Rightarrow> error + sys" where
  "Fiber_dtor this s =
     and_then (deref this s) (\<lambda>f.
     let s1 = s\<lparr>s_fiber_count := s_fiber_count s - 1\<rparr>
     in case m_stack f of
          Some stk \<Rightarrow>
            and_then (SYLAR_ASSERT (m_state f = TERM')) (\<lambda>_.
            Inr (Dealloc stk (ucast (m_stack_size f)) s1))
        | None \<Rightarrow>
            and_then (SYLAR_ASSERT (m_cb f = None)) (\<lambda>_.
            and_then (SYLAR_ASSERT (m_state f = RUNNING)) (\<lambda>_.
            let cur = t_fiber s1
            in Inr (if cur = Some this then SetThis None s1 else s1))))"

text \<open>\<open>Fiber::resume()\<close>.\<close>

definition resume :: "platform \<Rightarrow> addr \<Rightarrow> sys \<Rightarrow> error + sys" where
  "resume env this s =
     and_then (deref this s) (\<lambda>f.
     and_then (SYLAR_ASSERT (m_state f \<noteq> TERM' \<and> m_state f \<noteq> RUNNING)) (\<lambda>_.
     let s1 = SetThis (Some this) s;
         s2 = modify this (\<lambda>f. f\<lparr>m_state := RUNNING\<rparr>) s1
     in if m_runInScheduler f
        then and_then (nonnull (Scheduler_GetMainFiber s2)) (\<lambda>hub.
             and_then (swapcontext env hub this s2) (\<lambda>(rc, s3).
             and_then (if rc \<noteq> 0 then SYLAR_ASSERT2 False ''swapcontext'' else Inr ()) (\<lambda>_.
             Inr s3)))
        else and_then (nonnull (t_thread_fiber s2)) (\<lambda>root.
             and_then (swapcontext env root this s2) (\<lambda>(rc, s3).
             and_then (if rc \<noteq> 0 then SYLAR_ASSERT2 False ''swapcontext'' else Inr ()) (\<lambda>_.
             Inr s3)))))"

text \<open>\<open>Fiber::yield()\<close>.\<close>

definition yield :: "platform \<Rightarrow> addr \<Rightarrow> sys \<Rightarrow> error + sys" where
  "yield env this s =
     and_then (deref this s) (\<lambda>f.
     and_then (SYLAR_ASSERT (m_state f = RUNNING \<or> m_state f = TERM')) (\<lambda>_.
     let s1 = SetThis (t_thread_fiber s) s;
         s2 = (if m_state f \<noteq> TERM' then modify this (\<lambda>f. f\<lparr>m_state := READY\<rparr>) s1 else s1)
     in and_then (nonnull (t_thread_fiber s2)) (\<lambda>root.
        and_then (swapcontext env this root s2) (\<lambda>(rc, s3).
        and_then (if rc \<noteq> 0 then SYLAR_ASSERT2 False ''swapcontext'' else Inr ()) (\<lambda>_.
        Inr s3)))))"

text \<open>\<open>Fiber::reset(cb)\<close>.\<close>

definition reset :: "platform \<Rightarrow> addr \<Rightarrow> cb option \<Rightarrow> sys \<Rightarrow> error + sys" where
  "reset env this cb s =
     and_then (deref this s) (\<lambda>f.
     and_then (SYLAR_ASSERT (m_stack f \<noteq> None)) (\<lambda>_.
     and_then (SYLAR_ASSERT (m_state f = TERM')) (\<lambda>_.
     let s1 = modify this (\<lambda>f. f\<lparr>m_cb := cb\<rparr>) s;
         (rc, s2) = getcontext env this s1
     in and_then (if rc \<noteq> 0 then SYLAR_ASSERT2 False ''getcontext'' else Inr ()) (\<lambda>_.
        let s3 = modify this (\<lambda>f. f\<lparr>m_ctx := (m_ctx f)\<lparr>uc_link := None\<rparr>\<rparr>) s2;
            s4 = modify this (\<lambda>f. f\<lparr>m_ctx := (m_ctx f)\<lparr>ss_sp := m_stack f\<rparr>\<rparr>) s3;
            s5 = modify this (\<lambda>f. f\<lparr>m_ctx := (m_ctx f)\<lparr>ss_size := ucast (m_stack_size f)\<rparr>\<rparr>) s4;
            s6 = makecontext this s5
        in Inr (modify this (\<lambda>f. f\<lparr>m_state := READY\<rparr>) s6)))))"

subsection \<open>Shared ownership (\<open>Fiber::ptr\<close> is \<open>std::shared_ptr<Fiber>\<close>)\<close>

text \<open>
  A handle is the address it holds; the use count of the control block is kept per
  address. Releasing the last handle runs the destructor and gives the storage back.
\<close>

definition shared_ptr_acquire :: "addr \<Rightarrow> sys \<Rightarrow> sys" where
  "shared_ptr_acquire p s = s\<lparr>use_count := (use_count s)(p := use_count s p + 1)\<rparr>"

definition shared_ptr_release :: "addr \<Rightarrow> sys \<Rightarrow> error + sys" where
  "shared_ptr_release p s =
     (if use_count s p > 1 then Inr (s\<lparr>use_count := (use_count s)(p := use_count s p - 1)\<rparr>)
      else and_then (Fiber_dtor p (s\<lparr>use_count := (use_count s)(p := 0)\<rparr>)) (\<lambda>s1.
           Inr (s1\<lparr>heap := (heap s1)(p := None)\<rparr>)))"

text \<open>\<open>shared_from_this()\<close> throws \<open>std::bad_weak_ptr\<close> on an object no handle owns.\<close>

definition shared_from_this :: "addr \<Rightarrow> sys \<Rightarrow> error + addr option \<times> sys" where
  "shared_from_this p s =
     and_then (deref p s) (\<lambda>_.
     if use_count s p = 0 then Inl Bad_weak_ptr
     else Inr (Some p, shared_ptr_acquire p s))"

text \<open>\<open>Fiber::GetThis()\<close>.\<close>

definition GetThis :: "platform \<Rightarrow> sys \<Rightarrow> error + addr option \<times> sys" where
  "GetThis env s =
     (case t_fiber s of
        Some cur \<Rightarrow> shared_from_this cur s
      | None \<Rightarrow>
          and_then (Fiber_ctor env (new_ret env) s) (\<lambda>s1.
          let main_fiber = new_ret env;
              s2 = s1\<lparr>use_count := (use_count s1)(main_fiber := 1)\<rparr>
          in and_then (SYLAR_ASSERT (t_fiber s2 = Some main_fiber)) (\<lambda>_.
             let old = t_thread_fiber s2;
                 s3 = (shared_ptr_acquire main_fiber s2)\<lparr>t_thread_fiber := Some main_fiber\<rparr>
             in and_then (case old of None \<Rightarrow> Inr s3 | Some q \<Rightarrow> shared_ptr_release q s3) (\<lambda>s4.
                and_then (nonnull (t_fiber s4)) (\<lambda>cur.
                and_then (shared_from_this cur s4) (\<lambda>(r, s5).
                and_then (shared_ptr_release main_fiber s5) (\<lambda>s6.
                Inr (r, s6))))))))"

text \<open>
  \<open>Fiber::MainFunc()\<close>. What the callable named \<open>c\<close> does from its call to its return is
  given by \<open>run c\<close>: the state it returns in, or the error it stops the process with.
\<close>

definition MainFunc :: "(cb \<Rightarrow> sys \<Rightarrow> error + sys) \<Rightarrow> platform \<Rightarrow> sys \<Rightarrow> error + sys" where
  "MainFunc run env s =
     and_then (GetThis env s) (\<lambda>(cur, s1).
     and_then (SYLAR_ASSERT (cur \<noteq> None)) (\<lambda>_.
     and_then (nonnull cur) (\<lambda>raw.
     and_then (deref raw s1) (\<lambda>f.
     and_then (case m_cb f of
                 None \<Rightarrow> Inl Bad_function_call
               | Some c \<Rightarrow> run c (emit (Call raw c) s1)) (\<lambda>s2.
     and_then (deref raw s2) (\<lambda>_.
     let s3 = modify raw (\<lambda>f. f\<lparr>m_cb := None\<rparr>) s2;
         s4 = modify raw (\<lambda>f. f\<lparr>m_state := TERM'\<rparr>) s3;
         raw_ptr = raw
     in and_then (shared_ptr_release raw s4) (\<lambda>s5.
        yield env raw_ptr s5)))))))"

text \<open>\<open>Fiber::GetFiberId()\<close> and \<open>Fiber::TotalFibers()\<close>.\<close>

definition GetFiberId :: "sys \<Rightarrow> error + 64 word" where
  "GetFiberId s =
     (case t_fiber s of
        Some cur \<Rightarrow> and_then (deref cur s) (\<lambda>f. Inr (m_id f))
      | None \<Rightarrow> Inr 0)"

definition TotalFibers :: "sys \<Rightarrow> 64 word" where
  "TotalFibers s = s_fiber_count s"

section \<open>A process from its start\<close>

text \<open>
  The static initialisers of fiber.cpp: both counters 0, both thread-local pointers null,
  the configured stack size at its default \<open>128 * 1024\<close>; no fiber exists yet.
\<close>

definition initial :: sys where
  "initial = \<lparr>s_fiber_count = 0, s_fiber_id = 0, t_fiber = None, t_thread_fiber = None,
              g_fiber_stack_size = 128 * 1024, t_scheduler_fiber = None,
              heap = (\<lambda>_. None), use_count = (\<lambda>_. 0), trace = []\<rparr>"

text \<open>
  A run of constructions and destructions. \<open>Destroy\<close> is a \<open>delete\<close>: the destructor,
  then the storage is given back.
\<close>

datatype op =
    Construct_root platform addr
  | Construct_task platform addr "cb option" "64 word" bool
  | Destroy addr

fun is_construction :: "op \<Rightarrow> bool" where
  "is_construction (Destroy p) = False"
| "is_construction x = True"

fun target :: "op \<Rightarrow> addr" where
  "target (Construct_root env p) = p"
| "target (Construct_task env p cb n b) = p"
| "target (Destroy p) = p"

fun step :: "op \<Rightarrow> sys \<Rightarrow> error + sys" where
  "step (Construct_root env p) s = Fiber_ctor env p s"
| "step (Construct_task env p cb n b) s = Fiber_ctor_cb env p cb n b s"
| "step (Destroy p) s =
     and_then (Fiber_dtor p s) (\<lambda>s1. Inr (s1\<lparr>heap := (heap s1)(p := None)\<rparr>))"

fun steps :: "op list \<Rightarrow> sys \<Rightarrow> error + sys" where
  "steps [] s = Inr s"
| "steps (x # xs) s = and_then (step x s) (steps xs)"

text \<open>The ids the constructions of a run assign, in the order of the run.\<close>

fun assigned_ids :: "op list \<Rightarrow> sys \<Rightarrow> 64 word list" where
  "assigned_ids [] s = []"
| "assigned_ids (x # xs) s =
     (case step x s of
        Inl e \<Rightarrow> []
      | Inr s1 \<Rightarrow>
          (if is_construction x
           then (case heap s1 (target x) of None \<Rightarrow> [] | Some f \<Rightarrow> [m_id f])
           else []) @ assigned_ids xs s1)"

definition constructions :: "op list \<Rightarrow> nat" where
  "constructions xs = length (filter is_construction xs)"

definition destructions :: "op list \<Rightarrow> nat" where
  "destructions xs = length (filter (\<lambda>x. \<not> is_construction x) xs)"

section \<open>A thread with a root fiber, a scheduler hub and two task fibers\<close>

definition env0 :: platform where
  "env0 = \<lparr>new_ret = 0, malloc_ret = Some 1000, getcontext_ret = 0, swapcontext_ret = 0,
           indeterminate = False\<rparr>"

definition demo_root :: Fiber where
  "demo_root = \<lparr>m_id = 0, m_stack_size = 0, m_state = RUNNING,
                m_ctx = \<lparr>uc_link = None, ss_sp = None, ss_size = 0, uc_resume = Call_site\<rparr>,
                m_stack = None, m_cb = None, m_runInScheduler = False\<rparr>"

definition demo_task :: "64 word \<Rightarrow> 32 word \<Rightarrow> addr \<Rightarrow> cb \<Rightarrow> bool \<Rightarrow> Fiber" where
  "demo_task i n stk c b =
     \<lparr>m_id = i, m_stack_size = n, m_state = READY,
      m_ctx = \<lparr>uc_link = None, ss_sp = Some stk, ss_size = ucast n, uc_resume = MainFunc_entry\<rparr>,
      m_stack = Some stk, m_cb = Some c, m_runInScheduler = b\<rparr>"

text \<open>
  The root fiber at address 0, the hub at 1 (it does not take part in scheduling itself),
  a scheduled task at 2 and a task run directly from the thread at 3.
\<close>

definition demo :: sys where
  "demo = \<lparr>s_fiber_count = 4, s_fiber_id = 4, t_fiber = Some 0, t_thread_fiber = Some 0,
           g_fiber_stack_size = 131072, t_scheduler_fiber = Some 1,
           heap = [0 \<mapsto> demo_root, 1 \<mapsto> demo_task 1 131072 1000 11 False,
                   2 \<mapsto> demo_task 2 131072 2000 22 True,
                   3 \<mapsto> demo_task 3 65536 3000 33 False],
           use_count = (\<lambda>_. 1),
           trace = [Malloc 131072 (Some 1000), Malloc 131072 (Some 2000),
                    Malloc 65536 (Some 3000)]\<rparr>"

text \<open>The same thread after \<open>resume()\<close> of the fiber at 2, and after that fiber finished.\<close>

definition demo_running :: sys where
  "demo_running =
     emit (Swapcontext 1 2)
       (modify 1 (\<lambda>f. f\<lparr>m_ctx := (m_ctx f)\<lparr>uc_resume := Call_site\<rparr>\<rparr>)
         (modify 2 (\<lambda>f. f\<lparr>m_state := RUNNING\<rparr>) (SetThis (Some 2) demo)))"

definition demo_done :: sys where
  "demo_done =
     emit (Swapcontext 2 0)
       (modify 2 (\<lambda>f. f\<lparr>m_cb := None, m_state := TERM',
                          m_ctx := (m_ctx f)\<lparr>uc_resume := Call_site\<rparr>\<rparr>)
         (SetThis (Some 0) (emit (Call 2 22) demo_running)))"

text \<open>A callable that returns at once and touches nothing.\<close>

definition returns_at_once :: "cb \<Rightarrow> sys \<Rightarrow> error + sys" where
  "returns_at_once c s = Inr s"


section \<open>Evaluation rules\<close>

lemma and_then_simps [simp]:
  "and_then (Inr x) k = k x"
  "and_then (Inl e) k = Inl e"
  by (simp_all add: and_then_def)

lemma deref_Some [simp]: "heap s p = Some f \<Longrightarrow> deref p s = Inr f"
  by (simp add: deref_def)

lemma deref_None [simp]: "heap s p = None \<Longrightarrow> deref p s = Inl Dangling_pointer"
  by (simp add: deref_def)

lemma nonnull_simps [simp]:
  "nonnull (Some a) = Inr a"
  "nonnull None = Inl Null_dereference"
  by (simp_all add: nonnull_def)

lemma SYLAR_ASSERT_simps [simp]:
  "SYLAR_ASSERT True = Inr ()"
  "SYLAR_ASSERT False = Inl Assertion_failed"
  "SYLAR_ASSERT2 True w = Inr ()"
  "SYLAR_ASSERT2 False w = Inl Assertion_failed"
  by (simp_all add: SYLAR_ASSERT_def SYLAR_ASSERT2_def)

lemmas state_defs = modify_def emit_def SetThis_def

lemmas demo_defs = demo_def demo_root_def demo_task_def demo_running_def demo_done_def env0_def

text \<open>The three states follow one another by the operations themselves.\<close>

lemma demo_resume: "resume env0 2 demo = Inr demo_running"
  by (simp add: resume_def swapcontext_def Scheduler_GetMainFiber_def demo_defs state_defs)

lemma demo_MainFunc: "MainFunc returns_at_once env0 demo_running = Inr demo_done"
  by (simp add: MainFunc_def GetThis_def shared_from_this_def shared_ptr_acquire_def
      shared_ptr_release_def yield_def swapcontext_def returns_at_once_def demo_defs state_defs
      fun_upd_idem_iff)

section \<open>Resuming and yielding\<close>

text \<open>
  Claim C1. For a fiber that is neither \<open>TERM\<close> nor \<open>RUNNING\<close>, \<open>resume()\<close> makes it the
  thread's current fiber, sets its state to \<open>RUNNING\<close> and swaps contexts, saving the
  caller in the context of the scheduler's hub fiber when the fiber takes part in
  scheduling and in the context of the thread's root fiber otherwise. On a \<open>TERM\<close> or
  \<open>RUNNING\<close> fiber the assertion stops the process. The swap needs the anchor to exist
  and \<open>swapcontext\<close> to succeed.
\<close>

theorem resume_spec:
  "heap s this = Some f \<Longrightarrow>
   (m_state f = TERM' \<or> m_state f = RUNNING \<longrightarrow> resume env this s = Inl Assertion_failed) \<and>
   (m_state f \<noteq> TERM' \<and> m_state f \<noteq> RUNNING \<and> swapcontext_ret env = 0 \<and>
    (if m_runInScheduler f then Scheduler_GetMainFiber s else t_thread_fiber s) = Some anchor \<and>
    heap s anchor \<noteq> None \<longrightarrow>
    (\<exists>s'. resume env this s = Inr s' \<and>
          t_fiber s' = Some this \<and>
          map_option m_state (heap s' this) = Some RUNNING \<and>
          trace s' = trace s @ [Swapcontext anchor this]))"
  by (auto simp: resume_def swapcontext_def Scheduler_GetMainFiber_def state_defs)

theorem resume_spec_witness:
  "heap demo 2 = Some (demo_task 2 131072 2000 22 True) \<and>
   Scheduler_GetMainFiber demo = Some 1 \<and> t_thread_fiber demo = Some 0 \<and>
   (\<exists>s'. resume env0 2 demo = Inr s' \<and> t_fiber s' = Some 2 \<and>
         map_option m_state (heap s' 2) = Some RUNNING \<and>
         trace s' = trace demo @ [Swapcontext 1 2]) \<and>
   (\<exists>s'. resume env0 3 demo = Inr s' \<and> t_fiber s' = Some 3 \<and>
         map_option m_state (heap s' 3) = Some RUNNING \<and>
         trace s' = trace demo @ [Swapcontext 0 3]) \<and>
   resume env0 0 demo = Inl Assertion_failed \<and>
   resume env0 2 demo_done = Inl Assertion_failed"
  using resume_spec [of demo 2 "demo_task 2 131072 2000 22 True" env0 1]
    resume_spec [of demo 3 "demo_task 3 65536 3000 33 False" env0 0]
    resume_spec [of demo 0 demo_root env0]
    resume_spec [of demo_done 2
      "(demo_task 2 131072 2000 22 True)\<lparr>m_cb := None, m_state := TERM',
         m_ctx := (m_ctx (demo_task 2 131072 2000 22 True))\<lparr>uc_resume := Call_site\<rparr>\<rparr>" env0]
  by (simp add: demo_defs Scheduler_GetMainFiber_def state_defs)


text \<open>
  Claim C2. \<open>yield()\<close> is legal on a \<open>RUNNING\<close> or \<open>TERM\<close> fiber only and stops the
  process on any other. It makes the thread's root fiber current, turns \<open>RUNNING\<close> into
  \<open>READY\<close> and leaves \<open>TERM\<close> as it is, and swaps to the root fiber's context whatever
  the fiber's scheduling flag: a scheduled fiber that was resumed against the hub and
  then yields has saved its caller in the hub and continues in the root.
\<close>

theorem yield_spec:
  "heap s this = Some f \<Longrightarrow>
   (m_state f \<noteq> RUNNING \<and> m_state f \<noteq> TERM' \<longrightarrow> yield env this s = Inl Assertion_failed) \<and>
   ((m_state f = RUNNING \<or> m_state f = TERM') \<and> swapcontext_ret env = 0 \<and>
    t_thread_fiber s = Some root \<and> heap s root \<noteq> None \<longrightarrow>
    (\<exists>s'. yield env this s = Inr s' \<and>
          t_fiber s' = Some root \<and>
          map_option m_state (heap s' this) = Some (if m_state f = TERM' then TERM' else READY) \<and>
          trace s' = trace s @ [Swapcontext this root])) \<and>
   (m_state f = READY \<and> m_runInScheduler f \<and> swapcontext_ret env = 0 \<and>
    Scheduler_GetMainFiber s = Some hub \<and> heap s hub \<noteq> None \<and>
    t_thread_fiber s = Some root \<and> heap s root \<noteq> None \<longrightarrow>
    (\<exists>s1 s2. resume env this s = Inr s1 \<and> yield env this s1 = Inr s2 \<and>
          t_fiber s2 = Some root \<and>
          map_option m_state (heap s2 this) = Some READY \<and>
          trace s2 = trace s @ [Swapcontext hub this, Swapcontext this root]))"
proof -
  assume live: "heap s this = Some f"
  have illegal: "yield env this s = Inl Assertion_failed"
    if "m_state f \<noteq> RUNNING \<and> m_state f \<noteq> TERM'"
    using live that by (simp add: yield_def)
  have legal: "\<exists>s'. yield env this s = Inr s' \<and> t_fiber s' = Some root \<and>
      map_option m_state (heap s' this) = Some (if m_state f = TERM' then TERM' else READY) \<and>
      trace s' = trace s @ [Swapcontext this root]"
    if "(m_state f = RUNNING \<or> m_state f = TERM') \<and> swapcontext_ret env = 0 \<and>
        t_thread_fiber s = Some root \<and> heap s root \<noteq> None"
    using live that
    by (cases "this = root")
       (auto simp: yield_def swapcontext_def state_defs Let_def deref_def)
  have round_trip: "\<exists>s1 s2. resume env this s = Inr s1 \<and> yield env this s1 = Inr s2 \<and>
      t_fiber s2 = Some root \<and> map_option m_state (heap s2 this) = Some READY \<and>
      trace s2 = trace s @ [Swapcontext hub this, Swapcontext this root]"
    if "m_state f = READY \<and> m_runInScheduler f \<and> swapcontext_ret env = 0 \<and>
        Scheduler_GetMainFiber s = Some hub \<and> heap s hub \<noteq> None \<and>
        t_thread_fiber s = Some root \<and> heap s root \<noteq> None"
    using live that
    by (cases "this = root"; cases "this = hub"; cases "hub = root")
       (auto simp: resume_def yield_def swapcontext_def Scheduler_GetMainFiber_def
          state_defs Let_def deref_def)
  from illegal legal round_trip show ?thesis by blast
qed

theorem yield_spec_witness:
  "heap demo_running 2 = Some ((demo_task 2 131072 2000 22 True)\<lparr>m_state := RUNNING\<rparr>) \<and>
   t_thread_fiber demo_running = Some 0 \<and>
   (\<exists>s'. yield env0 2 demo_running = Inr s' \<and> t_fiber s' = Some 0 \<and>
         map_option m_state (heap s' 2) = Some READY \<and>
         trace s' = trace demo_running @ [Swapcontext 2 0]) \<and>
   yield env0 3 demo = Inl Assertion_failed \<and>
   (\<exists>s1 s2. resume env0 2 demo = Inr s1 \<and> yield env0 2 s1 = Inr s2 \<and>
         t_fiber s2 = Some 0 \<and> map_option m_state (heap s2 2) = Some READY \<and>
         trace s2 = trace demo @ [Swapcontext 1 2, Swapcontext 2 0])"
  using yield_spec [of demo_running 2 "(demo_task 2 131072 2000 22 True)\<lparr>m_state := RUNNING\<rparr>"
      env0 0 1]
    yield_spec [of demo 3 "demo_task 3 65536 3000 33 False" env0]
    yield_spec [of demo 2 "demo_task 2 131072 2000 22 True" env0 0 1]
  by (simp add: demo_defs Scheduler_GetMainFiber_def state_defs)


section \<open>Destruction and reuse\<close>

text \<open>
  Claim C4. The destructor of a fiber with a stack asserts the state \<open>TERM\<close> and frees
  the stack once; the destructor of a fiber without a stack asserts that it has no
  callback and is \<open>RUNNING\<close>, and sets the thread's current-fiber pointer to null exactly
  when it points at this fiber. Every destruction that completes lowers the live-fiber
  counter by 1.
\<close>

theorem Fiber_dtor_spec:
  "heap s this = Some f \<Longrightarrow>
   (m_stack f = Some stk \<and> m_state f \<noteq> TERM' \<longrightarrow> Fiber_dtor this s = Inl Assertion_failed) \<and>
   (m_stack f = Some stk \<and> m_state f = TERM' \<longrightarrow>
      (\<exists>s'. Fiber_dtor this s = Inr s' \<and> trace s' = trace s @ [Free stk] \<and>
            t_fiber s' = t_fiber s \<and> s_fiber_count s' = s_fiber_count s - 1)) \<and>
   (m_stack f = None \<and> (m_state f \<noteq> RUNNING \<or> m_cb f \<noteq> None) \<longrightarrow>
      Fiber_dtor this s = Inl Assertion_failed) \<and>
   (m_stack f = None \<and> m_state f = RUNNING \<and> m_cb f = None \<longrightarrow>
      (\<exists>s'. Fiber_dtor this s = Inr s' \<and> trace s' = trace s \<and>
            t_fiber s' = (if t_fiber s = Some this then None else t_fiber s) \<and>
            s_fiber_count s' = s_fiber_count s - 1))"
  by (auto simp: Fiber_dtor_def Dealloc_def Let_def SYLAR_ASSERT_def state_defs)

theorem Fiber_dtor_spec_witness:
  "heap demo_done 2 \<noteq> None \<and>
   (\<exists>s'. Fiber_dtor 2 demo_done = Inr s' \<and> trace s' = trace demo_done @ [Free 2000] \<and>
         t_fiber s' = Some 0 \<and> s_fiber_count s' = 3) \<and>
   Fiber_dtor 3 demo = Inl Assertion_failed \<and>
   (\<exists>s'. Fiber_dtor 0 demo = Inr s' \<and> trace s' = trace demo \<and> t_fiber s' = None \<and>
         s_fiber_count s' = 3) \<and>
   (\<exists>s'. Fiber_dtor 0 demo_running = Inr s' \<and> t_fiber s' = Some 2 \<and> s_fiber_count s' = 3) \<and>
   Fiber_dtor 0 (modify 0 (m_state_update (\<lambda>_. READY)) demo) = Inl Assertion_failed"
  using Fiber_dtor_spec [of demo_done 2 "the (heap demo_done 2)" 2000]
    Fiber_dtor_spec [of demo 3 "the (heap demo 3)" 3000]
    Fiber_dtor_spec [of demo 0 demo_root]
    Fiber_dtor_spec [of demo_running 0 demo_root]
    Fiber_dtor_spec [of "modify 0 (m_state_update (\<lambda>_. READY)) demo" 0
       "demo_root\<lparr>m_state := READY\<rparr>"]
  by (auto simp: demo_defs state_defs)


text \<open>
  Claim C5. \<open>reset(cb)\<close> asserts that the fiber has a stack and is \<open>TERM\<close>. After a
  legal reset the fiber is \<open>READY\<close> with the new callback, its context starts at the
  entry function on the same stack, and its id, stack pointer and stack size are what
  they were; nothing is allocated or freed.
\<close>

theorem reset_spec:
  "heap s this = Some f \<Longrightarrow>
   (m_stack f = None \<or> m_state f \<noteq> TERM' \<longrightarrow> reset env this cb s = Inl Assertion_failed) \<and>
   (m_stack f \<noteq> None \<and> m_state f = TERM' \<and> getcontext_ret env = 0 \<longrightarrow>
      (\<exists>s' f'. reset env this cb s = Inr s' \<and> heap s' this = Some f' \<and>
            m_state f' = READY \<and> m_cb f' = cb \<and>
            m_id f' = m_id f \<and> m_stack f' = m_stack f \<and> m_stack_size f' = m_stack_size f \<and>
            ss_sp (m_ctx f') = m_stack f \<and> uc_resume (m_ctx f') = MainFunc_entry \<and>
            trace s' = trace s))"
  by (auto simp: reset_def getcontext_def makecontext_def Let_def SYLAR_ASSERT_def state_defs)

theorem reset_spec_witness:
  "(\<exists>s' f'. heap demo_done 2 \<noteq> None \<and> reset env0 2 (Some 77) demo_done = Inr s' \<and>
         heap s' 2 = Some f' \<and> m_state f' = READY \<and> m_cb f' = Some 77 \<and> m_id f' = 2 \<and>
         m_stack f' = Some 2000 \<and> m_stack_size f' = 131072 \<and> trace s' = trace demo_done) \<and>
   reset env0 3 (Some 77) demo = Inl Assertion_failed \<and>
   reset env0 0 (Some 77) demo = Inl Assertion_failed"
  using reset_spec [of demo_done 2 "the (heap demo_done 2)" env0 "Some 77"]
    reset_spec [of demo 3 "the (heap demo 3)" env0 "Some 77"]
    reset_spec [of demo 0 "the (heap demo 0)" env0 "Some 77"]
  by (auto simp: demo_defs state_defs)

section \<open>Construction\<close>

text \<open>What the two constructors build when \<open>getcontext\<close> succeeds, and that they stop otherwise.\<close>

lemma Fiber_ctor_ok:
  "getcontext_ret env = 0 \<Longrightarrow>
   Fiber_ctor env this s =
     Inr (s\<lparr>heap := (heap s)(this \<mapsto>
               \<lparr>m_id = s_fiber_id s, m_stack_size = 0, m_state = RUNNING,
                m_ctx = blank_ctx\<lparr>uc_resume := Call_site\<rparr>,
                m_stack = None, m_cb = None, m_runInScheduler = indeterminate env\<rparr>),
            t_fiber := Some this,
            s_fiber_count := s_fiber_count s + 1,
            s_fiber_id := s_fiber_id s + 1\<rparr>)"
  by (simp add: Fiber_ctor_def getcontext_def Let_def state_defs)

lemma Fiber_ctor_fails:
  "getcontext_ret env \<noteq> 0 \<Longrightarrow> Fiber_ctor env this s = Inl Assertion_failed"
  by (simp add: Fiber_ctor_def getcontext_def Let_def state_defs)

lemma ucast_32_64_32 [simp]: "(ucast (ucast (x :: 32 word) :: 64 word) :: 32 word) = x"
  by (rule bit_word_eqI) (auto simp: bit_ucast_iff dest: bit_imp_le_length)

lemma Fiber_ctor_cb_ok:
  "getcontext_ret env = 0 \<Longrightarrow>
   Fiber_ctor_cb env this cb stack_size run_in_scheduler s =
     (let n = (if stack_size = 0 then g_fiber_stack_size s else ucast stack_size)
      in Inr (s\<lparr>heap := (heap s)(this \<mapsto>
               \<lparr>m_id = s_fiber_id s, m_stack_size = n, m_state = READY,
                m_ctx = \<lparr>uc_link = None, ss_sp = malloc_ret env, ss_size = ucast n,
                         uc_resume = MainFunc_entry\<rparr>,
                m_stack = malloc_ret env, m_cb = cb, m_runInScheduler = run_in_scheduler\<rparr>),
            s_fiber_id := s_fiber_id s + 1,
            s_fiber_count := s_fiber_count s + 1,
            trace := trace s @ [Malloc (ucast n) (malloc_ret env)]\<rparr>))"
  by (simp add: Fiber_ctor_cb_def getValue_def getcontext_def makecontext_def Alloc_def
      blank_ctx_def Let_def state_defs)

lemma Fiber_ctor_cb_fails:
  "getcontext_ret env \<noteq> 0 \<Longrightarrow>
   Fiber_ctor_cb env this cb stack_size run_in_scheduler s = Inl Assertion_failed"
  by (simp add: Fiber_ctor_cb_def getcontext_def Alloc_def Let_def state_defs)

text \<open>
  The fibers of \<open>demo\<close> are what the constructors build from the start of the process;
  the handles, the thread's root handle and the hub are registered by their callers.
\<close>

lemma demo_built:
  "steps [Construct_root env0 0,
          Construct_task env0 1 (Some 11) 0 False,
          Construct_task (env0\<lparr>malloc_ret := Some 2000\<rparr>) 2 (Some 22) 0 True,
          Construct_task (env0\<lparr>malloc_ret := Some 3000\<rparr>) 3 (Some 33) 65536 False] initial
   = Inr (demo\<lparr>t_thread_fiber := None, t_scheduler_fiber := None, use_count := (\<lambda>_. 0)\<rparr>)"
  by (simp add: Fiber_ctor_ok Fiber_ctor_cb_ok Let_def initial_def demo_defs blank_ctx_def
      fun_upd_twist)

text \<open>
  The parts of claim C7 that hold for every request: a task fiber is built \<open>READY\<close>,
  the live-fiber counter goes up by 1, the context starts at the entry function, a
  request of 0 takes the configured size, whose default is 131072, and the stack is
  allocated with the size stored in the 32-bit member \<open>m_stack_size\<close>.
\<close>

lemma Fiber_ctor_cb_effect:
  "getcontext_ret env = 0 \<Longrightarrow>
   \<exists>s' f. Fiber_ctor_cb env this cb stack_size run_in_scheduler s = Inr s' \<and>
     heap s' this = Some f \<and> m_state f = READY \<and>
     s_fiber_count s' = s_fiber_count s + 1 \<and>
     uc_resume (m_ctx f) = MainFunc_entry \<and>
     m_stack_size f = (if stack_size = 0 then g_fiber_stack_size s else ucast stack_size) \<and>
     trace s' = trace s @ [Malloc (ucast (m_stack_size f)) (malloc_ret env)] \<and>
     g_fiber_stack_size initial = 131072"
  by (simp add: Fiber_ctor_cb_ok Let_def initial_def)

text \<open>
  Claim C7 says that a nonzero requested stack size is used as given. The parameter is a
  \<open>size_t\<close> and the member that receives it a \<open>uint32_t\<close>: a request of \<open>2 ^ 32\<close>
  bytes is not 0, so the configured default is not taken, and it is stored as 0; the
  fiber is built \<open>READY\<close> on an allocation of 0 bytes.
\<close>

theorem Fiber_ctor_cb_truncates_stack_size:
  "\<exists>s' f. Fiber_ctor_cb env0 4 (Some 44) 4294967296 True demo = Inr s' \<and>
     heap s' 4 = Some f \<and> m_state f = READY \<and> m_stack_size f = 0 \<and>
     ss_size (m_ctx f) = 0 \<and> trace s' = trace demo @ [Malloc 0 (Some 1000)]"
  by (simp add: Fiber_ctor_cb_ok env0_def Let_def)

section \<open>The entry function\<close>

text \<open>
  The run of \<open>MainFunc\<close> on a fiber that its owner still holds when the callback
  returns: \<open>MainFunc\<close> takes a strong handle on the current fiber (the callback runs
  with the use count one higher), calls the stored callback once, and when that returns
  clears the callback, sets the state to \<open>TERM\<close>, gives the handle back and yields: the
  fiber is \<open>TERM\<close>, the root fiber is current and the context has been swapped to the
  root, without a \<open>yield()\<close> in the callback.
\<close>

theorem MainFunc_spec:
  assumes "t_fiber s = Some cur" and "heap s cur = Some f" and "0 < use_count s cur"
    and "m_cb f = Some c"
    and "run c (emit (Call cur c) (shared_ptr_acquire cur s)) = Inr s2"
    and "heap s2 cur = Some f2" and "1 < use_count s2 cur"
    and "t_thread_fiber s2 = Some root" and "heap s2 root \<noteq> None"
    and "swapcontext_ret env = 0"
  shows "use_count (shared_ptr_acquire cur s) cur = use_count s cur + 1 \<and>
    (\<exists>s'. MainFunc run env s = Inr s' \<and>
       heap s' = (heap s2)(cur \<mapsto> f2\<lparr>m_cb := None, m_state := TERM',
                                      m_ctx := (m_ctx f2)\<lparr>uc_resume := Call_site\<rparr>\<rparr>) \<and>
       use_count s' = (use_count s2)(cur := use_count s2 cur - 1) \<and>
       t_fiber s' = Some root \<and>
       trace s' = trace s2 @ [Swapcontext cur root] \<and>
       s_fiber_count s' = s_fiber_count s2)"
proof -
  have acquired: "GetThis env s = Inr (Some cur, shared_ptr_acquire cur s)"
    using assms(1-3) by (simp add: GetThis_def shared_from_this_def)
  have still: "heap (shared_ptr_acquire cur s) cur = Some f"
    using assms(2) by (simp add: shared_ptr_acquire_def)
  show ?thesis
    using assms acquired still
    by (cases "cur = root")
       (auto simp: MainFunc_def shared_ptr_release_def shared_ptr_acquire_def yield_def
          swapcontext_def Let_def deref_def state_defs)
qed

theorem MainFunc_spec_witness:
  "t_fiber demo_running = Some 2 \<and> use_count demo_running 2 = 1 \<and>
   map_option m_cb (heap demo_running 2) = Some (Some 22) \<and>
   (\<exists>s'. MainFunc returns_at_once env0 demo_running = Inr s' \<and>
      map_option m_cb (heap s' 2) = Some None \<and>
      map_option m_state (heap s' 2) = Some TERM' \<and>
      use_count s' 2 = 1 \<and> t_fiber s' = Some 0 \<and>
      trace s' = trace demo_running @ [Call 2 22, Swapcontext 2 0])"
  using MainFunc_spec [of demo_running 2 "the (heap demo_running 2)" 22 returns_at_once
      "emit (Call 2 22) (shared_ptr_acquire 2 demo_running)" "the (heap demo_running 2)" 0 env0]
  by (auto simp: returns_at_once_def shared_ptr_acquire_def demo_defs state_defs)

text \<open>
  The handle is given back before the yield. When it is the last one, because the owner
  gave up its own while the callback ran, \<open>cur.reset()\<close> runs the destructor, which
  finds the state \<open>TERM\<close> and frees the stack, and \<open>yield()\<close> is then called on the
  destroyed fiber.
\<close>

lemma MainFunc_last_handle:
  assumes "t_fiber s = Some cur" and "heap s cur = Some f" and "0 < use_count s cur"
    and "m_cb f = Some c"
    and "run c (emit (Call cur c) (shared_ptr_acquire cur s)) = Inr s2"
    and "heap s2 cur = Some f2" and "use_count s2 cur \<le> 1" and "m_stack f2 = Some stk"
  shows "MainFunc run env s = Inl Dangling_pointer"
proof -
  have acquired: "GetThis env s = Inr (Some cur, shared_ptr_acquire cur s)"
    using assms(1-3) by (simp add: GetThis_def shared_from_this_def)
  have still: "heap (shared_ptr_acquire cur s) cur = Some f"
    using assms(2) by (simp add: shared_ptr_acquire_def)
  let ?s4 = "modify cur (\<lambda>f. f\<lparr>m_state := TERM'\<rparr>) (modify cur (\<lambda>f. f\<lparr>m_cb := None\<rparr>) s2)"
  have destroyed: "\<exists>s5. shared_ptr_release cur ?s4 = Inr s5 \<and> heap s5 cur = None"
    using assms(6-8)
    by (simp add: shared_ptr_release_def Fiber_dtor_def Dealloc_def Let_def state_defs)
  then obtain s5 where s5: "shared_ptr_release cur ?s4 = Inr s5" "heap s5 cur = None"
    by blast
  have "yield env cur s5 = Inl Dangling_pointer"
    using s5(2) by (simp add: yield_def)
  with assms(4,5,6) acquired still s5(1) show ?thesis
    by (simp add: MainFunc_def Let_def)
qed


section \<open>The thread's current fiber\<close>

text \<open>
  Claim C9. With no fiber registered \<open>GetFiberId()\<close> is 0. The first \<open>GetThis()\<close> of a
  thread builds the root fiber (no callback, no stack, \<open>RUNNING\<close>), makes it current,
  keeps it as the thread's root handle and returns a second handle on it; \<open>GetFiberId()\<close>
  is then the id of that fiber. A later \<open>GetThis()\<close> returns a handle on the fiber that
  is current and builds nothing.
\<close>

theorem GetThis_spec:
  "(t_fiber s = None \<longrightarrow> GetFiberId s = Inr 0) \<and>
   (t_fiber s = None \<and> t_thread_fiber s = None \<and> getcontext_ret env = 0 \<longrightarrow>
      (\<exists>s1 f. GetThis env s = Inr (Some (new_ret env), s1) \<and>
         heap s1 (new_ret env) = Some f \<and>
         m_cb f = None \<and> m_stack f = None \<and> m_state f = RUNNING \<and> m_id f = s_fiber_id s \<and>
         t_fiber s1 = Some (new_ret env) \<and>
         t_thread_fiber s1 = Some (new_ret env) \<and>
         use_count s1 (new_ret env) = 2 \<and>
         GetFiberId s1 = Inr (m_id f) \<and>
         (\<exists>s2. GetThis env' s1 = Inr (Some (new_ret env), s2) \<and>
               heap s2 = heap s1 \<and> t_fiber s2 = t_fiber s1 \<and> s_fiber_id s2 = s_fiber_id s1 \<and>
               use_count s2 (new_ret env) = 3))) \<and>
   (t_fiber s = Some cur \<and> heap s cur \<noteq> None \<and> 0 < use_count s cur \<longrightarrow>
      (\<exists>s1. GetThis env s = Inr (Some cur, s1) \<and>
         heap s1 = heap s \<and> t_fiber s1 = Some cur \<and> t_thread_fiber s1 = t_thread_fiber s \<and>
         s_fiber_id s1 = s_fiber_id s \<and> s_fiber_count s1 = s_fiber_count s \<and>
         use_count s1 cur = use_count s cur + 1))"
proof (intro conjI impI)
  assume "t_fiber s = None"
  then show "GetFiberId s = Inr 0"
    by (simp add: GetFiberId_def)
next
  assume fresh: "t_fiber s = None \<and> t_thread_fiber s = None \<and> getcontext_ret env = 0"
  then show "\<exists>s1 f. GetThis env s = Inr (Some (new_ret env), s1) \<and>
         heap s1 (new_ret env) = Some f \<and>
         m_cb f = None \<and> m_stack f = None \<and> m_state f = RUNNING \<and> m_id f = s_fiber_id s \<and>
         t_fiber s1 = Some (new_ret env) \<and>
         t_thread_fiber s1 = Some (new_ret env) \<and>
         use_count s1 (new_ret env) = 2 \<and>
         GetFiberId s1 = Inr (m_id f) \<and>
         (\<exists>s2. GetThis env' s1 = Inr (Some (new_ret env), s2) \<and>
               heap s2 = heap s1 \<and> t_fiber s2 = t_fiber s1 \<and> s_fiber_id s2 = s_fiber_id s1 \<and>
               use_count s2 (new_ret env) = 3)"
    by (simp add: GetThis_def Fiber_ctor_ok shared_from_this_def shared_ptr_acquire_def
        shared_ptr_release_def GetFiberId_def Let_def)
next
  assume "t_fiber s = Some cur \<and> heap s cur \<noteq> None \<and> 0 < use_count s cur"
  then show "\<exists>s1. GetThis env s = Inr (Some cur, s1) \<and>
         heap s1 = heap s \<and> t_fiber s1 = Some cur \<and> t_thread_fiber s1 = t_thread_fiber s \<and>
         s_fiber_id s1 = s_fiber_id s \<and> s_fiber_count s1 = s_fiber_count s \<and>
         use_count s1 cur = use_count s cur + 1"
    by (auto simp: GetThis_def shared_from_this_def shared_ptr_acquire_def)
qed

theorem GetThis_spec_witness:
  "t_fiber initial = None \<and> t_thread_fiber initial = None \<and> getcontext_ret env0 = 0 \<and>
   GetFiberId initial = Inr 0 \<and>
   (\<exists>s1 f. GetThis env0 initial = Inr (Some 0, s1) \<and> heap s1 0 = Some f \<and>
      m_cb f = None \<and> m_stack f = None \<and> m_state f = RUNNING \<and> m_id f = 0 \<and>
      t_fiber s1 = Some 0 \<and> t_thread_fiber s1 = Some 0 \<and> use_count s1 0 = 2 \<and>
      GetFiberId s1 = Inr 0) \<and>
   (\<exists>s1. GetThis env0 demo_running = Inr (Some 2, s1) \<and> heap s1 = heap demo_running \<and>
      use_count s1 2 = 2)"
  using GetThis_spec [of initial env0 env0 0] GetThis_spec [of demo_running env0 env0 2]
  by (auto simp: initial_def demo_defs state_defs)

text \<open>
  Claim C10. \<open>GetFiberId()\<close> being 0 does not tell that no fiber is registered: ids
  start at 0, so when the root fiber of a thread is the first fiber of the process it
  is current and \<open>GetFiberId()\<close> is 0, as it was before any fiber existed.
\<close>

theorem GetFiberId_zero_with_fiber:
  "getcontext_ret env = 0 \<Longrightarrow>
   t_fiber initial = None \<and> GetFiberId initial = Inr 0 \<and>
   (\<exists>s f. GetThis env initial = Inr (Some (new_ret env), s) \<and>
      t_fiber s = Some (new_ret env) \<and> heap s (new_ret env) = Some f \<and> m_id f = 0 \<and>
      GetFiberId s = Inr 0)"
  by (simp add: GetThis_def Fiber_ctor_ok shared_from_this_def shared_ptr_acquire_def
        shared_ptr_release_def GetFiberId_def Let_def initial_def)

theorem GetFiberId_zero_with_fiber_witness:
  "getcontext_ret env0 = 0 \<and> GetFiberId initial = Inr 0 \<and>
   (\<exists>s f. GetThis env0 initial = Inr (Some 0, s) \<and>
      t_fiber s = Some 0 \<and> heap s 0 = Some f \<and> m_id f = 0 \<and> GetFiberId s = Inr 0)"
  using GetFiberId_zero_with_fiber [of env0]
  by (simp add: env0_def)

text \<open>
  Claim C8 says that the current-fiber pointer is updated on every construction and
  destruction, of task fibers too. It is not: constructing a task fiber on a thread
  whose root fiber is current leaves the root fiber current, and destroying a task
  fiber leaves the pointer as it is even when it points at that fiber.
\<close>

theorem t_fiber_not_set_for_task_fibers:
  "t_fiber demo = Some 0 \<and>
   map_sum id t_fiber (Fiber_ctor_cb env0 4 (Some 44) 0 True demo) = Inr (Some 0) \<and>
   map_sum id t_fiber (Fiber_dtor 2 (SetThis (Some 2) demo_done)) = Inr (Some 2)"
  by (simp add: Fiber_ctor_cb_ok Fiber_dtor_def Dealloc_def Let_def demo_defs state_defs)

text \<open>
  Claim C8 as amended. The pointer is set by every \<open>resume()\<close> (to the resumed fiber),
  by every \<open>yield()\<close> (to the thread's root fiber) and by the construction of a root
  fiber (to that fiber); the destruction of a fiber without a stack sets it to null when
  it points at that fiber; the construction of a task fiber and every other destruction
  leave it unchanged.
\<close>

theorem t_fiber_writes:
  "(resume env p s = Inr s1 \<longrightarrow> t_fiber s1 = Some p) \<and>
   (yield env p s = Inr s2 \<longrightarrow> t_fiber s2 = t_thread_fiber s) \<and>
   (Fiber_ctor env p s = Inr s3 \<longrightarrow> t_fiber s3 = Some p) \<and>
   (Fiber_ctor_cb env p cb n b s = Inr s4 \<longrightarrow> t_fiber s4 = t_fiber s) \<and>
   (heap s p = Some f \<and> Fiber_dtor p s = Inr s5 \<longrightarrow>
      t_fiber s5 = (if m_stack f = None \<and> t_fiber s = Some p then None else t_fiber s))"
proof (intro conjI impI)
  assume "resume env p s = Inr s1"
  then show "t_fiber s1 = Some p"
    by (auto simp: resume_def swapcontext_def and_then_def SYLAR_ASSERT_def SYLAR_ASSERT2_def
        deref_def nonnull_def Let_def state_defs
        split: option.splits if_splits sum.splits)
next
  assume "yield env p s = Inr s2"
  then show "t_fiber s2 = t_thread_fiber s"
    by (auto simp: yield_def swapcontext_def and_then_def SYLAR_ASSERT_def SYLAR_ASSERT2_def
        deref_def nonnull_def Let_def state_defs
        split: option.splits if_splits sum.splits)
next
  assume "Fiber_ctor env p s = Inr s3"
  then show "t_fiber s3 = Some p"
    by (cases "getcontext_ret env = 0") (auto simp: Fiber_ctor_ok Fiber_ctor_fails)
next
  assume "Fiber_ctor_cb env p cb n b s = Inr s4"
  then show "t_fiber s4 = t_fiber s"
    by (cases "getcontext_ret env = 0") (auto simp: Fiber_ctor_cb_ok Fiber_ctor_cb_fails Let_def)
next
  assume "heap s p = Some f \<and> Fiber_dtor p s = Inr s5"
  then show "t_fiber s5 = (if m_stack f = None \<and> t_fiber s = Some p then None else t_fiber s)"
    by (auto simp: Fiber_dtor_def Dealloc_def SYLAR_ASSERT_def Let_def state_defs
        split: if_splits option.splits)
qed

theorem t_fiber_writes_witness:
  "resume env0 2 demo = Inr demo_running \<and> t_fiber demo_running = Some 2 \<and>
   (\<exists>s2. yield env0 2 demo_running = Inr s2 \<and> t_fiber s2 = Some 0) \<and>
   (\<exists>s3. Fiber_ctor env0 0 initial = Inr s3 \<and> t_fiber s3 = Some 0) \<and>
   (\<exists>s4. Fiber_ctor_cb env0 4 (Some 44) 0 True demo = Inr s4 \<and> t_fiber s4 = Some 0) \<and>
   (\<exists>s5. Fiber_dtor 2 demo_done = Inr s5 \<and> t_fiber s5 = Some 0) \<and>
   (\<exists>s5. Fiber_dtor 0 demo = Inr s5 \<and> t_fiber s5 = None)"
proof -
  obtain s2 where s2: "yield env0 2 demo_running = Inr s2"
    by (simp add: yield_def swapcontext_def demo_defs state_defs)
  obtain s3 where s3: "Fiber_ctor env0 0 initial = Inr s3"
    by (simp add: Fiber_ctor_ok env0_def)
  obtain s4 where s4: "Fiber_ctor_cb env0 4 (Some 44) 0 True demo = Inr s4"
    by (simp add: Fiber_ctor_cb_ok env0_def Let_def)
  obtain s5 where s5: "Fiber_dtor 2 demo_done = Inr s5"
    by (simp add: Fiber_dtor_def Dealloc_def demo_defs state_defs)
  obtain s6 where s6: "Fiber_dtor 0 demo = Inr s6"
    by (simp add: Fiber_dtor_def demo_defs state_defs)
  have f2: "heap demo_done 2 = Some (the (heap demo_done 2))"
    and f0: "heap demo 0 = Some demo_root"
    by (simp_all add: demo_defs state_defs)
  have r1: "t_fiber demo_running = Some 2"
    using t_fiber_writes [where env = env0 and p = 2 and s = demo and ?s1.0 = demo_running]
      demo_resume by blast
  have r2: "t_fiber s2 = t_thread_fiber demo_running"
    using t_fiber_writes [where env = env0 and p = 2 and s = demo_running and ?s2.0 = s2]
      s2 by blast
  have r3: "t_fiber s3 = Some 0"
    using t_fiber_writes [where env = env0 and p = 0 and s = initial and ?s3.0 = s3]
      s3 by blast
  have r4: "t_fiber s4 = t_fiber demo"
    using t_fiber_writes [where env = env0 and p = 4 and s = demo and cb = "Some 44" and n = 0
        and b = True and ?s4.0 = s4] s4 by blast
  have r5: "t_fiber s5 = (if m_stack (the (heap demo_done 2)) = None \<and> t_fiber demo_done = Some 2
      then None else t_fiber demo_done)"
    using t_fiber_writes [where p = 2 and s = demo_done and f = "the (heap demo_done 2)"
        and ?s5.0 = s5] s5 f2 by blast
  have r6: "t_fiber s6 = (if m_stack demo_root = None \<and> t_fiber demo = Some 0
      then None else t_fiber demo)"
    using t_fiber_writes [where p = 0 and s = demo and f = demo_root and ?s5.0 = s6]
      s6 f0 by blast
  have vals: "t_thread_fiber demo_running = Some 0" "t_fiber demo = Some 0"
    "m_stack (the (heap demo_done 2)) = Some 2000" "t_fiber demo_done = Some 0"
    "m_stack demo_root = None"
    by (simp_all add: demo_defs state_defs)
  show ?thesis
    using r1 r2 r3 r4 r5 r6 s2 s3 s4 s5 s6 demo_resume by (simp add: vals)
qed

section \<open>Ids and the live-fiber counter\<close>

lemma step_counters:
  assumes "step x s = Inr s1"
  shows "s_fiber_id s1 = (if is_construction x then s_fiber_id s + 1 else s_fiber_id s)"
    and "s_fiber_count s1 = (if is_construction x then s_fiber_count s + 1 else s_fiber_count s - 1)"
    and "is_construction x \<Longrightarrow> map_option m_id (heap s1 (target x)) = Some (s_fiber_id s)"
proof -
  show "s_fiber_id s1 = (if is_construction x then s_fiber_id s + 1 else s_fiber_id s)"
  proof (cases x)
    case (Construct_root env p)
    with assms show ?thesis
      by (cases "getcontext_ret env = 0") (auto simp: Fiber_ctor_ok Fiber_ctor_fails)
  next
    case (Construct_task env p cb n b)
    with assms show ?thesis
      by (cases "getcontext_ret env = 0")
         (auto simp: Fiber_ctor_cb_ok Fiber_ctor_cb_fails Let_def)
  next
    case (Destroy p)
    with assms show ?thesis
      by (auto simp: Fiber_dtor_def Dealloc_def and_then_def deref_def SYLAR_ASSERT_def
          Let_def state_defs split: option.splits if_splits sum.splits)
  qed
  show "s_fiber_count s1 = (if is_construction x then s_fiber_count s + 1 else s_fiber_count s - 1)"
  proof (cases x)
    case (Construct_root env p)
    with assms show ?thesis
      by (cases "getcontext_ret env = 0") (auto simp: Fiber_ctor_ok Fiber_ctor_fails)
  next
    case (Construct_task env p cb n b)
    with assms show ?thesis
      by (cases "getcontext_ret env = 0")
         (auto simp: Fiber_ctor_cb_ok Fiber_ctor_cb_fails Let_def)
  next
    case (Destroy p)
    with assms show ?thesis
      by (auto simp: Fiber_dtor_def Dealloc_def and_then_def deref_def SYLAR_ASSERT_def
          Let_def state_defs split: option.splits if_splits sum.splits)
  qed
  show "map_option m_id (heap s1 (target x)) = Some (s_fiber_id s)" if "is_construction x"
  proof (cases x)
    case (Construct_root env p)
    with assms show ?thesis
      by (cases "getcontext_ret env = 0") (auto simp: Fiber_ctor_ok Fiber_ctor_fails)
  next
    case (Construct_task env p cb n b)
    with assms show ?thesis
      by (cases "getcontext_ret env = 0")
         (auto simp: Fiber_ctor_cb_ok Fiber_ctor_cb_fails Let_def)
  next
    case (Destroy p)
    with that show ?thesis by simp
  qed
qed

lemma steps_counters:
  "steps xs s = Inr s' \<Longrightarrow>
   assigned_ids xs s = map (\<lambda>i. s_fiber_id s + of_nat i) [0..<constructions xs] \<and>
   s_fiber_id s' = s_fiber_id s + of_nat (constructions xs) \<and>
   s_fiber_count s' = s_fiber_count s + of_nat (constructions xs) - of_nat (destructions xs)"
proof (induction xs arbitrary: s)
  case Nil
  then show ?case by (simp add: constructions_def destructions_def)
next
  case (Cons x xs)
  then obtain s1 where s1: "step x s = Inr s1" and rest: "steps xs s1 = Inr s'"
    by (cases "step x s") auto
  note ih = Cons.IH [OF rest]
  note sc = step_counters [OF s1]
  show ?case
  proof (cases "is_construction x")
    case True
    then obtain f where f: "heap s1 (target x) = Some f" "m_id f = s_fiber_id s"
      using sc(3) by auto
    from True have n: "constructions (x # xs) = Suc (constructions xs)"
      "destructions (x # xs) = destructions xs"
      by (simp_all add: constructions_def destructions_def)
    show ?thesis
      using True ih sc(1,2) f s1
      by (simp add: n map_upt_Suc add.assoc del: upt_Suc)
  next
    case False
    then have n: "constructions (x # xs) = constructions xs"
      "destructions (x # xs) = Suc (destructions xs)"
      by (simp_all add: constructions_def destructions_def)
    show ?thesis
      using False ih sc(1,2) s1 by (simp add: n)
  qed
qed

lemma of_nat_strict_mono_64:
  "i < j \<Longrightarrow> j < 2 ^ 64 \<Longrightarrow> (of_nat i :: 64 word) < of_nat j"
  by (simp add: word_less_nat_alt unat_of_nat)

lemma ids_increasing:
  assumes "n \<le> 2 ^ 64"
  shows "sorted_wrt (<) (map (of_nat :: nat \<Rightarrow> 64 word) [0..<n])"
proof (rule sorted_wrt_map_mono [where R = "(<)"])
  show "sorted_wrt (<) [0..<n]" by simp
next
  fix x y :: nat
  assume "x \<in> set [0..<n]" "y \<in> set [0..<n]" "x < y"
  with assms have "x < y" "y < 2 ^ 64" by simp_all
  then show "(of_nat x :: 64 word) < of_nat y" by (rule of_nat_strict_mono_64)
qed

text \<open>
  Claim C6. In a run of constructions and destructions from the start of the process the
  ids assigned are 0, 1, 2, ... in the order of the constructions, root and task fibers
  alike: strictly increasing and without repeats, as long as the 64-bit generator has
  not wrapped. Every construction adds 1 to the live-fiber counter and every destruction
  takes 1 off, so after N constructions and M destructions it is N - M; and a run from
  any state of the process, fibers that have finished among them, moves the counter by
  N - M.
\<close>

theorem ids_and_count:
  "(steps xs initial = Inr s' \<longrightarrow>
     assigned_ids xs initial = map of_nat [0..<constructions xs] \<and>
     (constructions xs \<le> 2 ^ 64 \<longrightarrow>
        sorted_wrt (<) (assigned_ids xs initial) \<and> distinct (assigned_ids xs initial)) \<and>
     TotalFibers s' = of_nat (constructions xs) - of_nat (destructions xs) \<and>
     (destructions xs \<le> constructions xs \<and> constructions xs < 2 ^ 64 \<longrightarrow>
        unat (TotalFibers s') = constructions xs - destructions xs)) \<and>
   (steps ys s0 = Inr s1 \<longrightarrow>
     TotalFibers s1 = TotalFibers s0 + of_nat (constructions ys) - of_nat (destructions ys) \<and>
     assigned_ids ys s0 = map (\<lambda>i. s_fiber_id s0 + of_nat i) [0..<constructions ys])"
proof (intro conjI impI)
  assume run: "steps ys s0 = Inr s1"
  from steps_counters [OF run]
  show "TotalFibers s1 = TotalFibers s0 + of_nat (constructions ys) - of_nat (destructions ys)"
    and "assigned_ids ys s0 = map (\<lambda>i. s_fiber_id s0 + of_nat i) [0..<constructions ys]"
    by (simp_all add: TotalFibers_def)
next
  assume run: "steps xs initial = Inr s'"
  from steps_counters [OF run]
  have ids: "assigned_ids xs initial = map of_nat [0..<constructions xs]"
    and cnt: "TotalFibers s' = of_nat (constructions xs) - of_nat (destructions xs)"
    by (simp_all add: initial_def TotalFibers_def)
  show "assigned_ids xs initial = map of_nat [0..<constructions xs]"
    by (fact ids)
  show "TotalFibers s' = of_nat (constructions xs) - of_nat (destructions xs)"
    by (fact cnt)
  have inc: "sorted_wrt (<) (assigned_ids xs initial)" if "constructions xs \<le> 2 ^ 64"
    using that ids by (simp add: ids_increasing)
  show "sorted_wrt (<) (assigned_ids xs initial)" if "constructions xs \<le> 2 ^ 64"
    using that by (rule inc)
  show "distinct (assigned_ids xs initial)" if "constructions xs \<le> 2 ^ 64"
    using inc [OF that] by (simp add: strict_sorted_iff)
  show "unat (TotalFibers s') = constructions xs - destructions xs"
    if "destructions xs \<le> constructions xs \<and> constructions xs < 2 ^ 64"
  proof -
    from that have "of_nat (constructions xs) - of_nat (destructions xs)
        = (of_nat (constructions xs - destructions xs) :: 64 word)"
      by simp
    moreover from that have "constructions xs - destructions xs < 2 ^ 64"
      by (intro less_imp_diff_less) simp
    ultimately show ?thesis
      using cnt by (simp add: unat_of_nat)
  qed
qed

theorem ids_and_count_witness:
  "(\<exists>s'. steps [Construct_root env0 0, Construct_task env0 1 (Some 11) 0 False,
                 Construct_task env0 2 (Some 22) 4096 True, Destroy 0] initial = Inr s' \<and>
         TotalFibers s' = 2) \<and>
   assigned_ids [Construct_root env0 0, Construct_task env0 1 (Some 11) 0 False,
                 Construct_task env0 2 (Some 22) 4096 True, Destroy 0] initial = [0, 1, 2] \<and>
   TotalFibers demo_done = 4 \<and>
   (\<exists>s1. steps [Construct_task env0 4 (Some 44) 0 True, Destroy 2, Destroy 0] demo_done = Inr s1 \<and>
         TotalFibers s1 = 3) \<and>
   assigned_ids [Construct_task env0 4 (Some 44) 0 True, Destroy 2, Destroy 0] demo_done = [4]"
proof -
  let ?run = "[Construct_root env0 0, Construct_task env0 1 (Some 11) 0 False,
               Construct_task env0 2 (Some 22) 4096 True, Destroy 0]"
  let ?later = "[Construct_task env0 4 (Some 44) 0 True, Destroy 2, Destroy 0]"
  obtain s' where run: "steps ?run initial = Inr s'"
    by (simp add: Fiber_ctor_ok Fiber_ctor_cb_ok Fiber_dtor_def Let_def env0_def initial_def
        state_defs)
  obtain s1 where later: "steps ?later demo_done = Inr s1"
    by (simp add: Fiber_ctor_cb_ok Fiber_dtor_def Dealloc_def Let_def demo_defs state_defs)
  have n: "constructions ?run = 3" "destructions ?run = 1"
    "constructions ?later = 1" "destructions ?later = 1 + 1"
    by (simp_all add: constructions_def destructions_def)
  have upt3: "[0..<3] = [0, 1, 2]" "[0..<1] = [0]"
    by (simp_all add: upt_rec)
  have start: "TotalFibers demo_done = 4" "s_fiber_id demo_done = 4"
    by (simp_all add: TotalFibers_def demo_defs state_defs)
  note first = ids_and_count [where xs = ?run and s' = s', THEN conjunct1, rule_format,
      OF run, unfolded n upt3]
  note second = ids_and_count [where ys = ?later and ?s0.0 = demo_done and ?s1.0 = s1,
      THEN conjunct2, rule_format, OF later, unfolded n upt3 start]
  from first second run later start(1) show ?thesis
    by simp
qed

end
